theory Spec2Isabelle
  imports Main
begin

section \<open>The hello_wasm module\<close>

text \<open>
  The module \<^verbatim>\<open>src/hello_wasm/main.c\<close> has two functions:
  \<^verbatim>\<open>
  EMSCRIPTEN_KEEPALIVE
  void say_hello(void) {
      printf("Hello, World from WebAssembly!\n");
      emscripten_run_script("console.log('Hello, World from WebAssembly!');");
  }

  int main(void) {
      printf("Hello, World (startup)\n");
      return 0;
  }
  \<close>
  Neither declares a parameter, a local or an object with static storage. All either of them
  does is call the platform, so the embedding threads one value through them: the platform
  as the module sees it.
\<close>

subsection \<open>The platform\<close>

text \<open>
  What leaves the module is a sequence of events: a text handed to the standard output
  stream, or a script handed to the host for evaluation.
\<close>

datatype event = Stdout string | Run_Script string

text \<open>
  The platform state is the trace of the events so far, oldest first, and the condition of the
  standard output stream, which the module can only learn from the value \<^verbatim>\<open>printf\<close>
  returns. The trace records what the module hands over; whether the sink takes it is the
  platform's business.
\<close>

record world =
  trace :: "event list"
  stdout_error :: bool

text \<open>
  \<^verbatim>\<open>int printf(const char *format, ...)\<close> of the C library, called with a format and no further
  argument, as both call sites do. Neither format holds a conversion specification (lemma
  \<open>formats_plain\<close> below), so the text written is the format itself. The value returned is
  the number of characters transmitted, or a negative value when the stream reports an error.
\<close>

definition printf :: "string \<Rightarrow> world \<Rightarrow> int \<times> world" where
  "printf format w =
     (if stdout_error w then - 1 else int (length format),
      w\<lparr>trace := trace w @ [Stdout format]\<rparr>)"

text \<open>
  \<^verbatim>\<open>void emscripten_run_script(const char *script)\<close> of the Emscripten runtime: the host is
  asked to evaluate the script; nothing comes back.
\<close>

definition emscripten_run_script :: "string \<Rightarrow> world \<Rightarrow> unit \<times> world" where
  "emscripten_run_script script w = ((), w\<lparr>trace := trace w @ [Run_Script script]\<rparr>)"

subsection \<open>The two functions\<close>

text \<open>
  \<^verbatim>\<open>void say_hello(void)\<close>: two calls in sequence, the value of the first thrown away. The C
  escape \<^verbatim>\<open>\n\<close> is the character \<open>\<newline>\<close> (code 10).
\<close>

definition say_hello :: "world \<Rightarrow> unit \<times> world" where
  "say_hello w =
     (let (_, w1) = printf ''Hello, World from WebAssembly!\<newline>'' w;
          (_, w2) = emscripten_run_script ''console.log('Hello, World from WebAssembly!');'' w1
      in ((), w2))"

text \<open>\<^verbatim>\<open>int main(void)\<close>: one call, its value thrown away, then \<^verbatim>\<open>return 0\<close>.\<close>

definition main :: "world \<Rightarrow> int \<times> world" where
  "main w =
     (let (_, w1) = printf ''Hello, World (startup)\<newline>'' w
      in (0, w1))"

subsection \<open>Observing a call\<close>

text \<open>The events a call added, given the platform before it and after it.\<close>

definition emitted :: "world \<Rightarrow> world \<Rightarrow> event list" where
  "emitted w w' = drop (length (trace w)) (trace w')"

text \<open>The scripts handed to the host and the text handed to standard output, in order.\<close>

definition script_requests :: "event list \<Rightarrow> string list" where
  "script_requests es =
     concat (map (\<lambda>e. case e of Stdout _ \<Rightarrow> [] | Run_Script s \<Rightarrow> [s]) es)"

definition stdout_text :: "event list \<Rightarrow> string" where
  "stdout_text es =
     concat (map (\<lambda>e. case e of Stdout s \<Rightarrow> s | Run_Script _ \<Rightarrow> []) es)"

subsection \<open>Sequences of calls\<close>

text \<open>
  The module exports both functions, and nothing in it decides when they run: the C start-up
  code calls \<^verbatim>\<open>main\<close>, the host calls \<^verbatim>\<open>say_hello\<close> by name when and as often as it likes.
  A history is a list of such calls, run one after the other on the platform state the one
  before left; the values returned are dropped, as no call receives anything from an earlier
  one.
\<close>

datatype entry = Call_say_hello | Call_main

fun call :: "entry \<Rightarrow> world \<Rightarrow> world" where
  "call Call_say_hello w = snd (say_hello w)"
| "call Call_main w = snd (main w)"

fun calls :: "entry list \<Rightarrow> world \<Rightarrow> world" where
  "calls [] w = w"
| "calls (e # es) w = calls es (call e w)"

section \<open>Basic facts\<close>

lemma formats_plain:
  "CHR ''%'' \<notin> set ''Hello, World from WebAssembly!\<newline>''"
  "CHR ''%'' \<notin> set ''Hello, World (startup)\<newline>''"
  by simp_all

lemma newline_code: "''\<newline>'' = [CHR 0x0A]"
  by simp

lemma say_hello_run:
  "say_hello \<lparr>trace = [], stdout_error = False\<rparr> =
     ((), \<lparr>trace = [Stdout ''Hello, World from WebAssembly!\<newline>'',
                   Run_Script ''console.log('Hello, World from WebAssembly!');''],
           stdout_error = False\<rparr>)"
  by (simp add: say_hello_def printf_def emscripten_run_script_def)

lemma main_run:
  "main \<lparr>trace = [], stdout_error = True\<rparr> =
     (0, \<lparr>trace = [Stdout ''Hello, World (startup)\<newline>''], stdout_error = True\<rparr>)"
  by (simp add: main_def printf_def)

lemma calls_run:
  "trace (calls [Call_main, Call_say_hello, Call_say_hello] \<lparr>trace = [], stdout_error = False\<rparr>) =
     [Stdout ''Hello, World (startup)\<newline>'',
      Stdout ''Hello, World from WebAssembly!\<newline>'',
      Run_Script ''console.log('Hello, World from WebAssembly!');'',
      Stdout ''Hello, World from WebAssembly!\<newline>'',
      Run_Script ''console.log('Hello, World from WebAssembly!');'']"
  by (simp add: say_hello_def main_def printf_def emscripten_run_script_def)

lemma snd_printf: "snd (printf format w) = w\<lparr>trace := trace w @ [Stdout format]\<rparr>"
  by (simp add: printf_def)

lemma snd_say_hello:
  "snd (say_hello w) =
     w\<lparr>trace := trace w @
        [Stdout ''Hello, World from WebAssembly!\<newline>'',
         Run_Script ''console.log('Hello, World from WebAssembly!');'']\<rparr>"
  by (simp add: say_hello_def printf_def emscripten_run_script_def)

lemma main_eq:
  "main w = (0, w\<lparr>trace := trace w @ [Stdout ''Hello, World (startup)\<newline>'']\<rparr>)"
  by (simp add: main_def printf_def)

lemma emitted_append: "emitted w (w\<lparr>trace := trace w @ es\<rparr>) = es"
  by (simp add: emitted_def)

lemma emitted_say_hello:
  "emitted w (snd (say_hello w)) =
     [Stdout ''Hello, World from WebAssembly!\<newline>'',
      Run_Script ''console.log('Hello, World from WebAssembly!');'']"
  by (simp only: snd_say_hello emitted_append)

lemma emitted_main:
  "emitted w (snd (main w)) = [Stdout ''Hello, World (startup)\<newline>'']"
  by (simp only: main_eq snd_conv emitted_append)

lemma call_eq:
  "call e w =
     w\<lparr>trace := trace w @
        (case e of
           Call_say_hello \<Rightarrow>
             [Stdout ''Hello, World from WebAssembly!\<newline>'',
              Run_Script ''console.log('Hello, World from WebAssembly!');'']
         | Call_main \<Rightarrow> [Stdout ''Hello, World (startup)\<newline>''])\<rparr>"
  by (cases e) (simp_all add: snd_say_hello main_eq)

lemma calls_eq:
  "calls es w =
     w\<lparr>trace := trace w @ concat (map (\<lambda>e.
        case e of
          Call_say_hello \<Rightarrow>
            [Stdout ''Hello, World from WebAssembly!\<newline>'',
             Run_Script ''console.log('Hello, World from WebAssembly!');'']
        | Call_main \<Rightarrow> [Stdout ''Hello, World (startup)\<newline>'']) es)\<rparr>"
proof (induction es arbitrary: w)
  case Nil
  show ?case by simp
next
  case (Cons e es)
  show ?case
    by (simp only: calls.simps Cons.IH call_eq) simp
qed

lemma calls_replicate_say_hello:
  "calls (replicate n Call_say_hello) w =
     w\<lparr>trace := trace w @ concat (replicate n
        [Stdout ''Hello, World from WebAssembly!\<newline>'',
         Run_Script ''console.log('Hello, World from WebAssembly!');''])\<rparr>"
  by (simp add: calls_eq map_replicate_const)

section \<open>The greeter\<close>

text \<open>
  C1. A call of \<open>say_hello\<close> returns nothing and leaves the platform as it was but for two
  events added to the trace, in this order: first the text
  \<^verbatim>\<open>Hello, World from WebAssembly!\<close> and a line terminator on standard output, then one
  request to the host to evaluate the script
  \<^verbatim>\<open>console.log('Hello, World from WebAssembly!');\<close>. The text is one line: its only line
  terminator is its last character.
\<close>

theorem say_hello_effects:
  "say_hello w =
     ((), w\<lparr>trace := trace w @
        [Stdout (''Hello, World from WebAssembly!'' @ [CHR 0x0A]),
         Run_Script ''console.log('Hello, World from WebAssembly!');'']\<rparr>)
   \<and> CHR 0x0A \<notin> set ''Hello, World from WebAssembly!''"
  by (simp add: say_hello_def printf_def emscripten_run_script_def)

section \<open>The start-up reporter\<close>

text \<open>
  C2. A run of \<open>main\<close>, from any platform state, returns the exit status 0 (success) and
  leaves the platform as it was but for one event added to the trace: the text
  \<^verbatim>\<open>Hello, World (startup)\<close> and a line terminator on standard output. The text is one
  line: its only line terminator is its last character.
\<close>

theorem main_effects:
  "main w =
     (0, w\<lparr>trace := trace w @ [Stdout (''Hello, World (startup)'' @ [CHR 0x0A])]\<rparr>)
   \<and> CHR 0x0A \<notin> set ''Hello, World (startup)''"
  by (simp add: main_def printf_def)

text \<open>
  C4. Two runs of \<open>main\<close> cannot be told apart, whatever the platform states they start
  from (what was printed before, whether the stream is in error): both return the exit status
  0 and both add the one line \<^verbatim>\<open>Hello, World (startup)\<close> to standard output and nothing
  else. \<open>main\<close> is declared with the parameter list \<^verbatim>\<open>(void)\<close>, so no argument vector
  reaches it: the platform state is the only input the embedding has.
\<close>

theorem main_deterministic:
  "fst (main w1) = fst (main w2)
   \<and> emitted w1 (snd (main w1)) = emitted w2 (snd (main w2))
   \<and> fst (main w1) = 0
   \<and> emitted w1 (snd (main w1)) = [Stdout (''Hello, World (startup)'' @ [CHR 0x0A])]"
  by (simp add: emitted_main) (simp add: main_eq)

text \<open>
  C5. A run of \<open>main\<close> alone adds one event only, the start-up line on standard output: the
  whole text it writes is \<^verbatim>\<open>Hello, World (startup)\<close> and a line terminator, it asks the host
  to evaluate no script, none of its events is one that a call of \<open>say_hello\<close> produces, and
  it returns the exit status 0.
\<close>

theorem main_only_startup_line:
  "emitted w (snd (main w)) = [Stdout (''Hello, World (startup)'' @ [CHR 0x0A])]
   \<and> stdout_text (emitted w (snd (main w))) = ''Hello, World (startup)'' @ [CHR 0x0A]
   \<and> script_requests (emitted w (snd (main w))) = []
   \<and> set (emitted w (snd (main w))) \<inter> set (emitted w' (snd (say_hello w'))) = {}
   \<and> fst (main w) = 0"
  by (simp add: emitted_main emitted_say_hello stdout_text_def script_requests_def)
    (simp add: main_eq)

section \<open>Repeated calls of the greeter\<close>

text \<open>
  C3. However many calls of \<open>say_hello\<close> the host has made before, the next call produces the
  same two outputs: the standard-output line and the script request of the first call. So any
  two calls in a sequence produce the same outputs, and \<open>n\<close> calls leave the platform as it
  was but for \<open>n\<close> copies of that pair on the trace: nothing else accumulates.
\<close>

theorem say_hello_repeatable:
  "emitted (calls (replicate k Call_say_hello) w)
      (snd (say_hello (calls (replicate k Call_say_hello) w))) =
     [Stdout (''Hello, World from WebAssembly!'' @ [CHR 0x0A]),
      Run_Script ''console.log('Hello, World from WebAssembly!');'']
   \<and> emitted (calls (replicate j Call_say_hello) w)
      (snd (say_hello (calls (replicate j Call_say_hello) w))) =
     emitted (calls (replicate k Call_say_hello) w)
      (snd (say_hello (calls (replicate k Call_say_hello) w)))
   \<and> calls (replicate n Call_say_hello) w =
     w\<lparr>trace := trace w @ concat (replicate n
        [Stdout (''Hello, World from WebAssembly!'' @ [CHR 0x0A]),
         Run_Script ''console.log('Hello, World from WebAssembly!');''])\<rparr>"
  by (simp add: emitted_say_hello calls_replicate_say_hello)

section \<open>The interface of the greeter\<close>

text \<open>
  C6. \<open>say_hello\<close> takes no argument and returns no value: its embedding has the platform
  state as its only parameter and \<open>unit\<close> as the type of its result, the one value of which is
  what every call returns. What a call does depends on nothing at all, not even on the
  platform state it starts from: any two calls add the same events.
\<close>

theorem say_hello_void:
  "fst (say_hello w1) = ()
   \<and> fst (say_hello w1) = fst (say_hello w2)
   \<and> emitted w1 (snd (say_hello w1)) = emitted w2 (snd (say_hello w2))"
  by (simp add: emitted_say_hello)

text \<open>
  C9. In one call of \<open>say_hello\<close> there is one greeting \<open>g\<close> such that the standard-output
  text is \<open>g\<close> followed by the line terminator and the script is
  \<^verbatim>\<open>console.log('\<close>\<open>g\<close>\<^verbatim>\<open>');\<close>. The greeting holds no quote, no backslash and no line terminator,
  so the script's string literal ends where \<open>g\<close> ends and denotes \<open>g\<close> character for
  character.
\<close>

theorem same_greeting_both_sinks:
  "\<exists>g. emitted w (snd (say_hello w)) =
          [Stdout (g @ [CHR 0x0A]),
           Run_Script (''console.log('' @ [CHR 0x27] @ g @ [CHR 0x27] @ '');'')]
        \<and> CHR 0x27 \<notin> set g \<and> CHR 0x5C \<notin> set g \<and> CHR 0x0A \<notin> set g
        \<and> g = ''Hello, World from WebAssembly!''"
  by (simp add: emitted_say_hello)

section \<open>Errors, termination and state\<close>


text \<open>
  C8. Each function is one unconditional straight-line action. There are two fixed event
  lists, chosen before any platform state is looked at, such that from every state
  \<open>say_hello\<close> returns with the first appended to the trace and \<open>main\<close> returns 0 with the
  second appended, and nothing else changed: no branch, since no state (stream in error or
  not, whatever was emitted before) gets another outcome. The lists are the calls of the
  source, each once and in order: the standard-output line and then the script request for
  \<open>say_hello\<close>, the start-up line for \<open>main\<close>; so nothing is repeated, retried or skipped.
  Both functions therefore return from every state, \<open>say_hello\<close> after exactly two events and
  \<open>main\<close> after exactly one.
\<close>

theorem both_terminate:
  "(\<exists>es1 es2.
      (\<forall>w. say_hello w = ((), w\<lparr>trace := trace w @ es1\<rparr>)
         \<and> main w = (0, w\<lparr>trace := trace w @ es2\<rparr>))
      \<and> es1 = [Stdout (''Hello, World from WebAssembly!'' @ [CHR 0x0A]),
                Run_Script ''console.log('Hello, World from WebAssembly!');'']
      \<and> es2 = [Stdout (''Hello, World (startup)'' @ [CHR 0x0A])]
      \<and> distinct es1 \<and> length es1 = 2 \<and> length es2 = 1)
   \<and> (\<exists>w'. say_hello w = ((), w') \<and> length (trace w') = length (trace w) + 2)
   \<and> (\<exists>w'. main w = (0, w') \<and> length (trace w') = length (trace w) + 1)"
proof (intro conjI)
  have greeter: "say_hello v = ((), v\<lparr>trace := trace v @
      [Stdout (''Hello, World from WebAssembly!'' @ [CHR 0x0A]),
       Run_Script ''console.log('Hello, World from WebAssembly!');'']\<rparr>)" for v
    by (simp add: prod_eq_iff snd_say_hello)
  have reporter: "main v = (0, v\<lparr>trace := trace v @
      [Stdout (''Hello, World (startup)'' @ [CHR 0x0A])]\<rparr>)" for v
    by (simp add: main_eq)
  show "\<exists>es1 es2.
      (\<forall>w. say_hello w = ((), w\<lparr>trace := trace w @ es1\<rparr>)
         \<and> main w = (0, w\<lparr>trace := trace w @ es2\<rparr>))
      \<and> es1 = [Stdout (''Hello, World from WebAssembly!'' @ [CHR 0x0A]),
                Run_Script ''console.log('Hello, World from WebAssembly!');'']
      \<and> es2 = [Stdout (''Hello, World (startup)'' @ [CHR 0x0A])]
      \<and> distinct es1 \<and> length es1 = 2 \<and> length es2 = 1"
    using greeter reporter by simp
  show "\<exists>w'. say_hello w = ((), w') \<and> length (trace w') = length (trace w) + 2"
    using greeter [of w] by simp
  show "\<exists>w'. main w = (0, w') \<and> length (trace w') = length (trace w) + 1"
    using reporter [of w] by simp
qed

text \<open>
  C10. The source declares no global or static variable, so the embedding has no program
  state: the platform state is all that passes from one call to the next. After any history
  \<open>h\<close> of calls of the two functions, the platform is as it was but for the trace, to which
  each call has added its own fixed events, whatever ran before it. What \<open>say_hello\<close> and
  \<open>main\<close> do next is the same after any two histories \<open>h1\<close> and \<open>h2\<close>, from any two starting
  states: the same events, and for \<open>main\<close> the same exit status.
\<close>

theorem no_mutable_state:
  "calls h w =
     w\<lparr>trace := trace w @ concat (map (\<lambda>e.
        case e of
          Call_say_hello \<Rightarrow>
            [Stdout (''Hello, World from WebAssembly!'' @ [CHR 0x0A]),
             Run_Script ''console.log('Hello, World from WebAssembly!');'']
        | Call_main \<Rightarrow> [Stdout (''Hello, World (startup)'' @ [CHR 0x0A])]) h)\<rparr>
   \<and> stdout_error (calls h w) = stdout_error w
   \<and> emitted (calls h1 w1) (snd (say_hello (calls h1 w1))) =
     emitted (calls h2 w2) (snd (say_hello (calls h2 w2)))
   \<and> emitted (calls h1 w1) (snd (main (calls h1 w1))) =
     emitted (calls h2 w2) (snd (main (calls h2 w2)))
   \<and> fst (main (calls h1 w1)) = fst (main (calls h2 w2))"
proof -
  have frame: "calls h w =
     w\<lparr>trace := trace w @ concat (map (\<lambda>e.
        case e of
          Call_say_hello \<Rightarrow>
            [Stdout (''Hello, World from WebAssembly!'' @ [CHR 0x0A]),
             Run_Script ''console.log('Hello, World from WebAssembly!');'']
        | Call_main \<Rightarrow> [Stdout (''Hello, World (startup)'' @ [CHR 0x0A])]) h)\<rparr>"
    using calls_eq [of h w] by simp
  have stream: "stdout_error (calls h w) = stdout_error w"
    by (simp add: calls_eq)
  have greeter: "emitted (calls h1 w1) (snd (say_hello (calls h1 w1))) =
     emitted (calls h2 w2) (snd (say_hello (calls h2 w2)))"
    by (simp only: emitted_say_hello)
  have reporter: "emitted (calls h1 w1) (snd (main (calls h1 w1))) =
     emitted (calls h2 w2) (snd (main (calls h2 w2)))"
    by (simp only: emitted_main)
  have status: "fst (main (calls h1 w1)) = fst (main (calls h2 w2))"
    by (simp only: main_eq fst_conv)
  from frame stream greeter reporter status show ?thesis
    by (intro conjI)
qed

end
